theory Spec2Isabelle
  imports Complex_Main "HOL-Library.Word" "HOL-Library.Log_Nat"
begin

unbundle bit_operations_syntax

section \<open>Python strings\<close>

text \<open>
  A Python \<open>str\<close> is a sequence of code points. The development covers the code points
  U+0000 to U+00FF: one \<^typ>\<open>char\<close> is one code point, read by \<^const>\<open>of_char\<close>.
  On this range \<open>str.strip()\<close> removes the code points for which \<open>str.isspace()\<close>
  holds (TAB to CR, FS to US, SPACE, NEL and NBSP), and \<open>str.lower()\<close> maps
  \<open>A\<close> to \<open>Z\<close> and the capital letters of the Latin-1 supplement (U+00C0 to U+00DE
  without the multiplication sign U+00D7) to the code point 32 places higher.
\<close>

definition isspace :: "char \<Rightarrow> bool" where
  "isspace c =
     (let n = (of_char c :: nat)
      in (9 \<le> n \<and> n \<le> 13) \<or> (28 \<le> n \<and> n \<le> 32) \<or> n = 133 \<or> n = 160)"

definition lower_char :: "char \<Rightarrow> char" where
  "lower_char c =
     (let n = (of_char c :: nat)
      in if (65 \<le> n \<and> n \<le> 90) \<or> (192 \<le> n \<and> n \<le> 222 \<and> n \<noteq> 215)
         then char_of (n + 32) else c)"

definition lower :: "string \<Rightarrow> string" where
  "lower s = map lower_char s"

definition lstrip :: "string \<Rightarrow> string" where
  "lstrip s = dropWhile isspace s"

definition rstrip :: "string \<Rightarrow> string" where
  "rstrip s = rev (dropWhile isspace (rev s))"

definition strip :: "string \<Rightarrow> string" where
  "strip s = rstrip (lstrip s)"

text \<open>\<open>str.encode()\<close>: UTF-8, one byte below U+0080 and two bytes from there to U+00FF.\<close>

type_synonym byte = "8 word"

definition encode_char :: "char \<Rightarrow> byte list" where
  "encode_char c =
     (let n = (of_char c :: nat)
      in if n < 128 then [of_nat n]
         else [of_nat (192 + n div 64), of_nat (128 + n mod 64)])"

definition encode :: "string \<Rightarrow> byte list" where
  "encode s = concat (map encode_char s)"

section \<open>The digest of \<open>hashlib.md5\<close>\<close>

text \<open>
  \<open>hashlib.md5(data).hexdigest()\<close> is the MD5 message digest (RFC 1321) of the bytes,
  written as 32 lower-case hexadecimal digits. The message is padded with the byte
  \<open>0x80\<close>, zero bytes up to 56 modulo 64, and its length in bits as a 64-bit
  little-endian number; each block of 64 bytes is 16 little-endian 32-bit words and goes
  through 64 steps on a state of four 32-bit words.
\<close>

type_synonym u32 = "32 word"

definition md5_K :: "u32 list" where
  "md5_K =
    [0xd76aa478, 0xe8c7b756, 0x242070db, 0xc1bdceee,
     0xf57c0faf, 0x4787c62a, 0xa8304613, 0xfd469501,
     0x698098d8, 0x8b44f7af, 0xffff5bb1, 0x895cd7be,
     0x6b901122, 0xfd987193, 0xa679438e, 0x49b40821,
     0xf61e2562, 0xc040b340, 0x265e5a51, 0xe9b6c7aa,
     0xd62f105d, 0x02441453, 0xd8a1e681, 0xe7d3fbc8,
     0x21e1cde6, 0xc33707d6, 0xf4d50d87, 0x455a14ed,
     0xa9e3e905, 0xfcefa3f8, 0x676f02d9, 0x8d2a4c8a,
     0xfffa3942, 0x8771f681, 0x6d9d6122, 0xfde5380c,
     0xa4beea44, 0x4bdecfa9, 0xf6bb4b60, 0xbebfbc70,
     0x289b7ec6, 0xeaa127fa, 0xd4ef3085, 0x04881d05,
     0xd9d4d039, 0xe6db99e5, 0x1fa27cf8, 0xc4ac5665,
     0xf4292244, 0x432aff97, 0xab9423a7, 0xfc93a039,
     0x655b59c3, 0x8f0ccc92, 0xffeff47d, 0x85845dd1,
     0x6fa87e4f, 0xfe2ce6e0, 0xa3014314, 0x4e0811a1,
     0xf7537e82, 0xbd3af235, 0x2ad7d2bb, 0xeb86d391]"

definition md5_S :: "nat list" where
  "md5_S =
    [7, 12, 17, 22, 7, 12, 17, 22, 7, 12, 17, 22, 7, 12, 17, 22,
     5, 9, 14, 20, 5, 9, 14, 20, 5, 9, 14, 20, 5, 9, 14, 20,
     4, 11, 16, 23, 4, 11, 16, 23, 4, 11, 16, 23, 4, 11, 16, 23,
     6, 10, 15, 21, 6, 10, 15, 21, 6, 10, 15, 21, 6, 10, 15, 21]"

definition rotl32 :: "nat \<Rightarrow> u32 \<Rightarrow> u32" where
  "rotl32 n x = push_bit n x OR drop_bit (32 - n) x"

type_synonym md5_state = "u32 \<times> u32 \<times> u32 \<times> u32"

definition md5_step :: "u32 list \<Rightarrow> md5_state \<Rightarrow> nat \<Rightarrow> md5_state" where
  "md5_step M st i =
     (case st of (a, b, c, d) \<Rightarrow>
        let (f, g) =
              (if i < 16 then ((b AND c) OR (NOT b AND d), i)
               else if i < 32 then ((d AND b) OR (NOT d AND c), (5 * i + 1) mod 16)
               else if i < 48 then (b XOR c XOR d, (3 * i + 5) mod 16)
               else (c XOR (b OR NOT d), (7 * i) mod 16));
            f' = f + a + md5_K ! i + M ! g
        in (d, b + rotl32 (md5_S ! i) f', b, c))"

definition le32 :: "byte list \<Rightarrow> u32" where
  "le32 bs = foldr (\<lambda>b w. ucast b OR push_bit 8 w) bs 0"

fun chunks :: "nat \<Rightarrow> 'a list \<Rightarrow> 'a list list" where
  "chunks 0 xs = []"
| "chunks (Suc n) xs = take 4 xs # chunks n (drop 4 xs)"

definition md5_block :: "md5_state \<Rightarrow> byte list \<Rightarrow> md5_state" where
  "md5_block st blk =
     (let M = map le32 (chunks 16 blk) in
      case (st, fold (\<lambda>i s. md5_step M s i) [0..<64] st) of
        ((a0, b0, c0, d0), (a, b, c, d)) \<Rightarrow> (a0 + a, b0 + b, c0 + c, d0 + d))"

definition bytes_le :: "nat \<Rightarrow> 'a::len word \<Rightarrow> byte list" where
  "bytes_le k w = map (\<lambda>i. ucast (drop_bit (8 * i) w)) [0..<k]"

definition md5_pad :: "byte list \<Rightarrow> byte list" where
  "md5_pad msg =
     msg @ [0x80] @ replicate ((64 - (length msg + 9) mod 64) mod 64) 0
         @ bytes_le 8 (of_nat (8 * length msg) :: 64 word)"

fun md5_blocks :: "nat \<Rightarrow> md5_state \<Rightarrow> byte list \<Rightarrow> md5_state" where
  "md5_blocks 0 st bs = st"
| "md5_blocks (Suc n) st bs = md5_blocks n (md5_block st (take 64 bs)) (drop 64 bs)"

definition md5_digest :: "byte list \<Rightarrow> byte list" where
  "md5_digest msg =
     (let p = md5_pad msg in
      case md5_blocks (length p div 64) (0x67452301, 0xefcdab89, 0x98badcfe, 0x10325476) p of
        (a, b, c, d) \<Rightarrow> concat (map (bytes_le 4) [a, b, c, d]))"

definition hex_alphabet :: string where
  "hex_alphabet = ''0123456789abcdef''"

definition hex_digit :: "nat \<Rightarrow> char" where
  "hex_digit n = hex_alphabet ! (n mod 16)"

definition hex_byte :: "byte \<Rightarrow> string" where
  "hex_byte b = [hex_digit (unat b div 16), hex_digit (unat b mod 16)]"

definition hexdigest :: "byte list \<Rightarrow> string" where
  "hexdigest bs = concat (map hex_byte bs)"

section \<open>Key derivation (\<open>main.py\<close>)\<close>

definition generate_cache_key :: "string \<Rightarrow> string" where
  "generate_cache_key query =
     (let normalized_query = strip (lower query)
      in hexdigest (md5_digest (encode normalized_query)))"

section \<open>Python values, exceptions and the outside world\<close>

text \<open>
  The values that \<open>json.loads\<close> returns and \<open>json.dumps\<close> takes: \<open>None\<close>, booleans,
  integers, floats (as the real number they stand for), strings, lists and dictionaries
  (their distinct string keys with the values, in insertion order).
\<close>

datatype pyval =
    PNone
  | PBool bool
  | PInt int
  | PFloat real
  | PStr string
  | PList "pyval list"
  | PDict "(string \<times> pyval) list"

text \<open>The truth value that \<open>if v:\<close> tests.\<close>

fun truthy :: "pyval \<Rightarrow> bool" where
  "truthy PNone = False"
| "truthy (PBool b) = b"
| "truthy (PInt i) = (i \<noteq> 0)"
| "truthy (PFloat x) = (x \<noteq> 0)"
| "truthy (PStr s) = (s \<noteq> [])"
| "truthy (PList vs) = (vs \<noteq> [])"
| "truthy (PDict kvs) = (kvs \<noteq> [])"

datatype exn =
    ConnectionError
  | ResponseError
  | JSONDecodeError
  | KeyError string
  | TypeError
  | ValidationError
  | UnicodeEncodeError
  | OverflowError
  | ZeroDivisionError

text \<open>\<open>v[k]\<close> with a string key \<open>k\<close>: only a dictionary that has the key answers.\<close>

fun subscript :: "pyval \<Rightarrow> string \<Rightarrow> exn + pyval" where
  "subscript (PDict kvs) k = (case map_of kvs k of None \<Rightarrow> Inl (KeyError k) | Some v \<Rightarrow> Inr v)"
| "subscript v k = Inl TypeError"

section \<open>Key derivation on a str with surrogate code points\<close>

text \<open>
  A \<^typ>\<open>string\<close> is a text: a \<open>str\<close> of code points up to U+00FF, which \<open>str.encode()\<close>
  always encodes. A Python \<open>str\<close> may also hold lone surrogate code points (U+D800 to
  U+DFFF; \<open>json.loads\<close> produces them from the escape of such a code point). They are not
  whitespace, \<open>str.lower()\<close> leaves them as they are, and \<open>str.encode()\<close> raises
  \<open>UnicodeEncodeError\<close> on them. \<^term>\<open>Surrogate n\<close> is the code point U+D800 + \<open>n\<close>.
  The functions below are \<open>generate_cache_key\<close> and the methods it calls on such a
  \<open>str\<close>; on a text they agree with the ones above (lemma \<open>generate_cache_key_str_text\<close>).
  The endpoints are modelled on texts.
\<close>

datatype codepoint =
    Latin1 char
  | Surrogate "11 word"

type_synonym pystr = "codepoint list"

fun is_surrogate :: "codepoint \<Rightarrow> bool" where
  "is_surrogate (Latin1 c) = False"
| "is_surrogate (Surrogate n) = True"

fun str_isspace :: "codepoint \<Rightarrow> bool" where
  "str_isspace (Latin1 c) = isspace c"
| "str_isspace (Surrogate n) = False"

fun str_lower_char :: "codepoint \<Rightarrow> codepoint" where
  "str_lower_char (Latin1 c) = Latin1 (lower_char c)"
| "str_lower_char (Surrogate n) = Surrogate n"

definition str_lower :: "pystr \<Rightarrow> pystr" where
  "str_lower s = map str_lower_char s"

definition str_strip :: "pystr \<Rightarrow> pystr" where
  "str_strip s = rev (dropWhile str_isspace (rev (dropWhile str_isspace s)))"

fun str_encode :: "pystr \<Rightarrow> exn + byte list" where
  "str_encode [] = Inr []"
| "str_encode (Surrogate n # cs) = Inl UnicodeEncodeError"
| "str_encode (Latin1 c # cs) =
     (case str_encode cs of Inl x \<Rightarrow> Inl x | Inr bs \<Rightarrow> Inr (encode_char c @ bs))"

definition generate_cache_key_str :: "pystr \<Rightarrow> exn + string" where
  "generate_cache_key_str query =
     (let normalized_query = str_strip (str_lower query)
      in case str_encode normalized_query of
           Inl x \<Rightarrow> Inl x
         | Inr bs \<Rightarrow> Inr (hexdigest (md5_digest bs)))"

section \<open>Redis and the libraries\<close>

text \<open>
  The commands the program sends to Redis. The world holds the database (for each key
  its string value and the time to live it was written with), the reply of \<open>INFO\<close>, the
  commands sent so far, the queries sent to the text-generation provider so far, and for
  each forthcoming Redis command whether the connection fails on it (\<open>True\<close>; after the
  end of the list no command fails).
\<close>

text \<open>
  A value in the reply of \<open>INFO\<close>: the fields that the statistics endpoint reads are
  integers (the counters) or strings (the version, the memory in human-readable form).
\<close>

datatype info_value =
    InfoInt int
  | InfoStr string

datatype redis_cmd =
    GET string
  | SETEX string nat string
  | DEL string
  | FLUSHDB
  | INFO

record world =
  redis_db :: "string \<rightharpoonup> string \<times> nat"
  redis_info :: "string \<rightharpoonup> info_value"
  redis_faults :: "bool list"
  redis_log :: "redis_cmd list"
  provider_log :: "string list"

text \<open>The \<open>n\<close>-th forthcoming Redis command fails.\<close>

definition fault_at :: "world \<Rightarrow> nat \<Rightarrow> bool" where
  "fault_at w n = (n < length (redis_faults w) \<and> redis_faults w ! n)"

text \<open>Sending a command: it is logged, and the connection works or fails for it.\<close>

definition redis_send :: "world \<Rightarrow> redis_cmd \<Rightarrow> bool \<times> world" where
  "redis_send w c =
     (\<not> fault_at w 0, w\<lparr>redis_faults := tl (redis_faults w), redis_log := redis_log w @ [c]\<rparr>)"

definition redis_get :: "world \<Rightarrow> string \<Rightarrow> (exn + string option) \<times> world" where
  "redis_get w key =
     (case redis_send w (GET key) of (ok, w') \<Rightarrow>
        if \<not> ok then (Inl ConnectionError, w')
        else (Inr (map_option fst (redis_db w' key)), w'))"

text \<open>The server rejects \<open>SETEX\<close> with an expiry of 0 seconds (invalid expire time).\<close>

definition redis_setex :: "world \<Rightarrow> string \<Rightarrow> nat \<Rightarrow> string \<Rightarrow> (exn + bool) \<times> world" where
  "redis_setex w key seconds v =
     (case redis_send w (SETEX key seconds v) of (ok, w') \<Rightarrow>
        if \<not> ok then (Inl ConnectionError, w')
        else if seconds = 0 then (Inl ResponseError, w')
        else (Inr True, w'\<lparr>redis_db := (redis_db w')(key \<mapsto> (v, seconds))\<rparr>))"

definition redis_delete :: "world \<Rightarrow> string \<Rightarrow> (exn + nat) \<times> world" where
  "redis_delete w key =
     (case redis_send w (DEL key) of (ok, w') \<Rightarrow>
        if \<not> ok then (Inl ConnectionError, w')
        else (Inr (case redis_db w' key of None \<Rightarrow> 0 | Some _ \<Rightarrow> 1),
              w'\<lparr>redis_db := (redis_db w')(key := None)\<rparr>))"

definition redis_flushdb :: "world \<Rightarrow> (exn + bool) \<times> world" where
  "redis_flushdb w =
     (case redis_send w FLUSHDB of (ok, w') \<Rightarrow>
        if \<not> ok then (Inl ConnectionError, w')
        else (Inr True, w'\<lparr>redis_db := Map.empty\<rparr>))"

definition redis_info_cmd :: "world \<Rightarrow> (exn + (string \<rightharpoonup> info_value)) \<times> world" where
  "redis_info_cmd w =
     (case redis_send w INFO of (ok, w') \<Rightarrow>
        if \<not> ok then (Inl ConnectionError, w')
        else (Inr (redis_info w'), w'))"

text \<open>
  What a request takes from libraries and services outside the repository:
  \<open>json.dumps\<close>; \<open>json.loads\<close> (\<open>None\<close> when it raises \<open>JSONDecodeError\<close>); the reply of
  the provider to \<open>chat.completions.create\<close> for a query; the value of \<open>time.time()\<close>
  when the request reads the clock; and the float that the validation of the response
  model reads from a string (\<open>None\<close> when it rejects the string).
\<close>

datatype completion =
    Raises string
  | Choices "string option list"

record env =
  json_dumps :: "pyval \<Rightarrow> string"
  json_loads :: "string \<Rightarrow> pyval option"
  completions_create :: "string \<Rightarrow> completion"
  clock :: real
  float_of_str :: "string \<Rightarrow> real option"

section \<open>Floats\<close>

text \<open>
  A float is the real number it stands for. \<^term>\<open>double_round x\<close> is the IEEE 754 double
  nearest to \<open>x\<close>, ties going to the even significand, with subnormals; it is \<open>None\<close>
  when that rounding leaves the range of the doubles. \<open>float(i)\<close> of an integer and the
  quotient \<open>a / b\<close> of two integers are rounded in this way, and raise \<open>OverflowError\<close>
  out of range.
\<close>

definition round_half_even :: "real \<Rightarrow> int" where
  "round_half_even x =
     (let f = \<lfloor>x\<rfloor>; d = x - of_int f
      in if d < 1 / 2 then f else if 1 / 2 < d then f + 1 else if even f then f else f + 1)"

text \<open>The exponent \<open>e\<close> with \<open>2 ^ e \<le> x < 2 ^ (e + 1)\<close>, for a positive \<open>x\<close>.\<close>

definition floor_log2 :: "real \<Rightarrow> int" where
  "floor_log2 x =
     (if 1 \<le> x then int (floorlog 2 (nat \<lfloor>x\<rfloor>)) - 1
      else let y = 1 / x; k = int (floorlog 2 (nat \<lfloor>y\<rfloor>)) - 1
           in if y = 2 powi k then - k else - k - 1)"

definition double_round :: "real \<Rightarrow> real option" where
  "double_round x =
     (if x = 0 then Some 0
      else let a = \<bar>x\<bar>;
               e = max (floor_log2 a) (- 1022);
               u = 2 powi (e - 52);
               y = of_int (round_half_even (a / u)) * u
           in if 2 powi 1024 \<le> y then None else Some (sgn x * y))"

definition float_of_int :: "int \<Rightarrow> real option" where
  "float_of_int i = double_round (of_int i)"

definition truediv :: "int \<Rightarrow> int \<Rightarrow> exn + real" where
  "truediv a b =
     (if b = 0 then Inl ZeroDivisionError
      else case double_round (of_int a / of_int b) of
             None \<Rightarrow> Inl OverflowError
           | Some y \<Rightarrow> Inr y)"

section \<open>The cache manager (\<open>cache.py\<close>)\<close>

text \<open>Each method is its \<open>try\<close> block, then the \<open>except Exception\<close> clause around it.\<close>

definition RedisCache_get_try :: "env \<Rightarrow> world \<Rightarrow> string \<Rightarrow> (exn + pyval) \<times> world" where
  "RedisCache_get_try e w key =
     (case redis_get w key of
        (Inl x, w') \<Rightarrow> (Inl x, w')
      | (Inr cached_data, w') \<Rightarrow>
          (case cached_data of
             None \<Rightarrow> (Inr PNone, w')
           | Some s \<Rightarrow>
               if s = [] then (Inr PNone, w')
               else (case json_loads e s of
                       None \<Rightarrow> (Inl JSONDecodeError, w')
                     | Some v \<Rightarrow> (Inr v, w'))))"

definition RedisCache_get :: "env \<Rightarrow> world \<Rightarrow> string \<Rightarrow> pyval \<times> world" where
  "RedisCache_get e w key =
     (case RedisCache_get_try e w key of
        (Inl x, w') \<Rightarrow> (PNone, w')
      | (Inr v, w') \<Rightarrow> (v, w'))"

definition RedisCache_set :: "env \<Rightarrow> world \<Rightarrow> string \<Rightarrow> pyval \<Rightarrow> nat \<Rightarrow> bool \<times> world" where
  "RedisCache_set e w key v expiration =
     (let serialized_value = json_dumps e v
      in case redis_setex w key expiration serialized_value of
           (Inl x, w') \<Rightarrow> (False, w')
         | (Inr result, w') \<Rightarrow> (result, w'))"

definition RedisCache_delete :: "world \<Rightarrow> string \<Rightarrow> bool \<times> world" where
  "RedisCache_delete w key =
     (case redis_delete w key of
        (Inl x, w') \<Rightarrow> (False, w')
      | (Inr result, w') \<Rightarrow> (result \<noteq> 0, w'))"

definition RedisCache_clear_all :: "world \<Rightarrow> bool \<times> world" where
  "RedisCache_clear_all w =
     (case redis_flushdb w of
        (Inl x, w') \<Rightarrow> (False, w')
      | (Inr result, w') \<Rightarrow> (result, w'))"

section \<open>The generation engine (\<open>ai_engine.py\<close>)\<close>

text \<open>
  The \<open>try\<close> block of \<open>generate_response\<close>: the call of the provider, then
  \<open>response.choices[0].message.content\<close>, then the slice \<open>ai_response[:100]\<close> for the log.
  An exception is kept as its text \<open>str(e)\<close>.
\<close>

fun completion_content :: "completion \<Rightarrow> string + string" where
  "completion_content (Raises m) = Inl m"
| "completion_content (Choices []) = Inl ''list index out of range''"
| "completion_content (Choices (None # cs)) =
     Inl (CHR 0x27 # ''NoneType'' @ CHR 0x27 # '' object is not subscriptable'')"
| "completion_content (Choices (Some s # cs)) = Inr s"

definition AIEngine_generate_response :: "env \<Rightarrow> world \<Rightarrow> string \<Rightarrow> string \<times> world" where
  "AIEngine_generate_response e w q =
     (let w' = w\<lparr>provider_log := provider_log w @ [q]\<rparr>
      in case completion_content (completions_create e q) of
           Inr ai_response \<Rightarrow> (ai_response, w')
         | Inl m \<Rightarrow> (''AI response to: '' @ q @ '' (API Error: '' @ m @ '')'', w'))"

section \<open>The endpoints (\<open>main.py\<close>)\<close>

record ChatResponse =
  query :: string
  response :: string
  cached :: bool
  timestamp :: real

datatype detail =
    Message string
  | Wrapped string exn

datatype http_exception = HTTPException nat detail

text \<open>
  The constructor of the response model validates its fields: strings for \<open>query\<close> and
  \<open>response\<close>, a boolean for \<open>cached\<close>, and for \<open>timestamp\<close> a float, an integer (converted
  as \<open>float(i)\<close> does), a boolean (1.0 or 0.0) or a string that reads as a float.
  \<^term>\<open>Wrapped p x\<close> is the detail text \<open>p\<close> followed by \<open>str(x)\<close>.
\<close>

fun as_float :: "env \<Rightarrow> pyval \<Rightarrow> real option" where
  "as_float e (PFloat x) = Some x"
| "as_float e (PInt i) = float_of_int i"
| "as_float e (PBool b) = Some (if b then 1 else 0)"
| "as_float e (PStr s) = float_of_str e s"
| "as_float e v = None"

fun new_ChatResponse :: "env \<Rightarrow> pyval \<Rightarrow> pyval \<Rightarrow> pyval \<Rightarrow> pyval \<Rightarrow> exn + ChatResponse" where
  "new_ChatResponse e (PStr q) (PStr r) (PBool c) t =
     (case as_float e t of
        None \<Rightarrow> Inl ValidationError
      | Some x \<Rightarrow> Inr \<lparr>query = q, response = r, cached = c, timestamp = x\<rparr>)"
| "new_ChatResponse e q r c t = Inl ValidationError"

definition chat_hit :: "env \<Rightarrow> pyval \<Rightarrow> exn + ChatResponse" where
  "chat_hit e cached_response =
     (case subscript cached_response ''query'' of
        Inl x \<Rightarrow> Inl x
      | Inr q \<Rightarrow>
     (case subscript cached_response ''response'' of
        Inl x \<Rightarrow> Inl x
      | Inr r \<Rightarrow>
     (case subscript cached_response ''timestamp'' of
        Inl x \<Rightarrow> Inl x
      | Inr t \<Rightarrow> new_ChatResponse e q r (PBool True) t)))"

text \<open>The dictionary \<open>response_data\<close> of a miss; \<open>now\<close> is the value of \<open>time.time()\<close>.\<close>

definition response_data :: "string \<Rightarrow> string \<Rightarrow> real \<Rightarrow> (string \<times> pyval) list" where
  "response_data q ai_response now =
     [(''query'', PStr q), (''response'', PStr ai_response),
      (''cached'', PBool False), (''timestamp'', PFloat now)]"

definition chat_miss :: "env \<Rightarrow> world \<Rightarrow> string \<Rightarrow> string \<Rightarrow> (exn + ChatResponse) \<times> world" where
  "chat_miss e w cache_key q =
     (case AIEngine_generate_response e w q of (ai_response, w1) \<Rightarrow>
        case RedisCache_set e w1 cache_key (PDict (response_data q ai_response (clock e))) 600
        of (stored, w2) \<Rightarrow>
          (new_ChatResponse e (PStr q) (PStr ai_response) (PBool False) (PFloat (clock e)), w2))"

definition chat :: "env \<Rightarrow> world \<Rightarrow> string \<Rightarrow> (http_exception + ChatResponse) \<times> world" where
  "chat e w request_query =
     (let q = strip request_query
      in if q = [] then (Inl (HTTPException 400 (Message ''Query cannot be empty'')), w)
         else
           let cache_key = generate_cache_key q
           in case RedisCache_get e w cache_key of (cached_response, w1) \<Rightarrow>
                (case (if truthy cached_response then (chat_hit e cached_response, w1)
                       else chat_miss e w1 cache_key q) of
                   (Inl x, w2) \<Rightarrow>
                     (Inl (HTTPException 500 (Wrapped ''Internal server error: '' x)), w2)
                 | (Inr r, w2) \<Rightarrow> (Inr r, w2)))"

record CacheStats =
  redis_version :: "info_value option"
  used_memory_human :: "info_value option"
  connected_clients :: "info_value option"
  total_commands_processed :: "info_value option"
  keyspace_hits :: "info_value option"
  keyspace_misses :: "info_value option"
  hit_rate :: real

text \<open>
  \<open>info.get(k, 0)\<close>, and the expression of the hit rate: \<open>+\<close> adds two integers (on two
  strings it concatenates, and \<open>max\<close> then raises \<open>TypeError\<close>, as \<open>+\<close> does on an integer
  and a string), \<open>max\<close> compares integers, and \<open>/\<close> is the division of two integers
  that gives a float.
\<close>

definition info_get :: "(string \<rightharpoonup> info_value) \<Rightarrow> string \<Rightarrow> info_value \<Rightarrow> info_value" where
  "info_get info k dflt = (case info k of None \<Rightarrow> dflt | Some v \<Rightarrow> v)"

definition hit_rate_of :: "(string \<rightharpoonup> info_value) \<Rightarrow> exn + real" where
  "hit_rate_of info =
     (case (info_get info ''keyspace_hits'' (InfoInt 0),
            info_get info ''keyspace_misses'' (InfoInt 0)) of
        (InfoInt hits, InfoInt misses) \<Rightarrow> truediv hits (max 1 (hits + misses))
      | _ \<Rightarrow> Inl TypeError)"

definition cache_stats :: "world \<Rightarrow> (http_exception + CacheStats) \<times> world" where
  "cache_stats w =
     (case redis_info_cmd w of
        (Inl x, w') \<Rightarrow>
          (Inl (HTTPException 500 (Wrapped ''Error getting cache statistics: '' x)), w')
      | (Inr info, w') \<Rightarrow>
          (case hit_rate_of info of
             Inl x \<Rightarrow>
               (Inl (HTTPException 500 (Wrapped ''Error getting cache statistics: '' x)), w')
           | Inr rate \<Rightarrow>
               (Inr \<lparr>redis_version = info ''redis_version'',
                     used_memory_human = info ''used_memory_human'',
                     connected_clients = info ''connected_clients'',
                     total_commands_processed = info ''total_commands_processed'',
                     keyspace_hits = info ''keyspace_hits'',
                     keyspace_misses = info ''keyspace_misses'',
                     hit_rate = rate\<rparr>, w')))"

section \<open>Example environments and worlds\<close>

text \<open>
  A stored entry with its serialised text, a provider that answers, a provider whose
  call raises, an empty store, a store that holds the entry under the key of its query,
  and a store that cannot be reached for the next two commands.
\<close>

definition example_entry :: pyval where
  "example_entry =
     PDict [(''query'', PStr ''What is Go?''), (''response'', PStr ''A programming language.''),
            (''cached'', PBool False), (''timestamp'', PFloat 1700000000)]"

definition example_env :: env where
  "example_env =
     \<lparr>json_dumps = (\<lambda>v. if v = example_entry then ''<entry>'' else ''<other>''),
      json_loads = (\<lambda>s. if s = ''<entry>'' then Some example_entry else None),
      completions_create = (\<lambda>q. Choices [Some ''A programming language.'']),
      clock = 1700000000,
      float_of_str = (\<lambda>s. None)\<rparr>"

definition failing_env :: env where
  "failing_env = example_env\<lparr>completions_create := (\<lambda>q. Raises ''Connection error.'')\<rparr>"

definition empty_world :: world where
  "empty_world =
     \<lparr>redis_db = Map.empty, redis_info = Map.empty, redis_faults = [],
      redis_log = [], provider_log = []\<rparr>"

definition warm_world :: world where
  "warm_world =
     empty_world\<lparr>redis_db := [generate_cache_key ''What is Go?'' \<mapsto> (''<entry>'', 600)]\<rparr>"

definition broken_world :: world where
  "broken_world =
     empty_world\<lparr>redis_db := [generate_cache_key ''What is Go?'' \<mapsto> (''{oops'', 600)]\<rparr>"

definition down_world :: world where
  "down_world = warm_world\<lparr>redis_faults := [True, True]\<rparr>"

definition stats_world :: world where
  "stats_world =
     empty_world\<lparr>redis_info :=
       [''keyspace_hits'' \<mapsto> InfoInt 1, ''keyspace_misses'' \<mapsto> InfoInt 2]\<rparr>"

section \<open>Normalisation of queries\<close>

lemma of_char_lower_char:
  "(of_char (lower_char c) :: nat) =
     (if (65 \<le> (of_char c :: nat) \<and> (of_char c :: nat) \<le> 90)
         \<or> (192 \<le> (of_char c :: nat) \<and> (of_char c :: nat) \<le> 222 \<and> (of_char c :: nat) \<noteq> 215)
      then of_char c + 32 else of_char c)"
  by (simp add: lower_char_def Let_def)

lemma isspace_lower_char: "isspace (lower_char c) = isspace c"
  unfolding isspace_def Let_def of_char_lower_char by auto

lemma lower_char_idem: "lower_char (lower_char c) = lower_char c"
proof -
  have "(of_char (lower_char (lower_char c)) :: nat) = of_char (lower_char c)"
    unfolding of_char_lower_char [of "lower_char c"] unfolding of_char_lower_char by auto
  then show ?thesis by (rule of_char_eqI)
qed

lemma lower_idem: "lower (lower s) = lower s"
  by (simp add: lower_def lower_char_idem)

lemma isspace_comp_lower_char: "isspace \<circ> lower_char = isspace"
  by (rule ext) (simp add: isspace_lower_char)

lemma lstrip_lower: "lstrip (lower s) = lower (lstrip s)"
  by (simp add: lstrip_def lower_def dropWhile_map isspace_comp_lower_char)

lemma rstrip_lower: "rstrip (lower s) = lower (rstrip s)"
  by (simp add: rstrip_def lower_def dropWhile_map isspace_comp_lower_char rev_map)

lemma strip_lower: "strip (lower s) = lower (strip s)"
  by (simp add: strip_def lstrip_lower rstrip_lower)

lemma rstrip_Cons_keep: "\<not> isspace x \<Longrightarrow> \<exists>ys. rstrip (x # xs) = x # ys"
proof -
  assume "\<not> isspace x"
  then have "rstrip (x # xs) = x # (if \<forall>c\<in>set xs. isspace c then [] else rstrip xs)"
    by (simp add: rstrip_def dropWhile_append)
  then show ?thesis by blast
qed

lemma lstrip_cases: "lstrip s = [] \<or> (\<exists>x xs. lstrip s = x # xs \<and> \<not> isspace x)"
proof (cases "lstrip s")
  case Nil
  then show ?thesis by simp
next
  case (Cons x xs)
  then have "dropWhile isspace s \<noteq> []" by (simp add: lstrip_def)
  from hd_dropWhile [OF this] Cons show ?thesis by (simp add: lstrip_def)
qed

lemma lstrip_strip: "lstrip (strip s) = strip s"
proof -
  from lstrip_cases [of s] show ?thesis
  proof
    assume "lstrip s = []"
    then have "strip s = []" by (simp add: strip_def rstrip_def)
    then show ?thesis by (simp add: lstrip_def)
  next
    assume "\<exists>x xs. lstrip s = x # xs \<and> \<not> isspace x"
    then obtain x xs where l: "lstrip s = x # xs" and x: "\<not> isspace x" by blast
    from rstrip_Cons_keep [OF x, of xs] obtain ys where "rstrip (x # xs) = x # ys" by blast
    with l x show ?thesis by (simp add: strip_def lstrip_def)
  qed
qed

lemma rstrip_rstrip: "rstrip (rstrip s) = rstrip s"
  by (simp add: rstrip_def)

lemma strip_idem: "strip (strip s) = strip s"
proof -
  have "strip (strip s) = rstrip (lstrip (strip s))" by (simp add: strip_def)
  also have "\<dots> = rstrip (strip s)" by (simp add: lstrip_strip)
  also have "\<dots> = strip s" by (simp add: strip_def rstrip_rstrip)
  finally show ?thesis .
qed

lemma strip_empty_iff: "strip s = [] \<longleftrightarrow> (\<forall>c\<in>set s. isspace c)"
proof
  assume a: "strip s = []"
  from lstrip_cases [of s] have "lstrip s = []"
  proof
    assume "lstrip s = []" then show ?thesis .
  next
    assume "\<exists>x xs. lstrip s = x # xs \<and> \<not> isspace x"
    then obtain x xs where l: "lstrip s = x # xs" and x: "\<not> isspace x" by blast
    from rstrip_Cons_keep [OF x, of xs] obtain ys where "rstrip (x # xs) = x # ys" by blast
    with l a show ?thesis by (simp add: strip_def)
  qed
  then show "\<forall>c\<in>set s. isspace c" by (simp add: lstrip_def dropWhile_eq_Nil_conv)
next
  assume "\<forall>c\<in>set s. isspace c"
  then have "lstrip s = []" by (simp add: lstrip_def dropWhile_eq_Nil_conv)
  then show "strip s = []" by (simp add: strip_def rstrip_def)
qed

lemma length_bytes_le: "length (bytes_le k w) = k"
  by (simp add: bytes_le_def)

lemma length_md5_digest: "length (md5_digest msg) = 16"
  by (simp add: md5_digest_def Let_def length_bytes_le split: prod.split)

lemma length_hexdigest: "length (hexdigest bs) = 2 * length bs"
  by (induction bs) (simp_all add: hexdigest_def hex_byte_def)

lemma length_hex_alphabet: "length hex_alphabet = 16"
  by (simp add: hex_alphabet_def)

lemma hex_digit_mem: "hex_digit n \<in> set hex_alphabet"
proof -
  have "n mod 16 < length hex_alphabet" by (simp add: length_hex_alphabet)
  then show ?thesis unfolding hex_digit_def by (rule nth_mem)
qed

lemma set_hex_byte: "set (hex_byte b) \<subseteq> set hex_alphabet"
  unfolding hex_byte_def using hex_digit_mem by simp

lemma set_hexdigest: "set (hexdigest bs) \<subseteq> set hex_alphabet"
  unfolding hexdigest_def using set_hex_byte by auto

section \<open>Key derivation\<close>

lemma generate_cache_key_cong:
  "strip (lower a) = strip (lower b) \<Longrightarrow> generate_cache_key a = generate_cache_key b"
  by (simp add: generate_cache_key_def)

lemma length_generate_cache_key: "length (generate_cache_key q) = 32"
  by (simp add: generate_cache_key_def length_hexdigest length_md5_digest)

text \<open>
  The embedding of the digest agrees with \<open>hashlib\<close>: on the empty text, on the query
  of the scenario in the specification with spaces around it, and on a query with a
  capital letter of the Latin-1 supplement, which \<open>lower\<close> changes and \<open>encode\<close> writes
  as two bytes.
\<close>

lemma generate_cache_key_empty:
  "generate_cache_key [] = ''d41d8cd98f00b204e9800998ecf8427e''"
  by code_simp

lemma generate_cache_key_spaces:
  "generate_cache_key ''  What is Go?  '' = ''e0a50a2fa3c8b56e60805b7bca4b87bf''"
  by code_simp

lemma generate_cache_key_latin1:
  "generate_cache_key [CHR '' '', CHR '' '', CHR ''C'', CHR ''A'', CHR ''F'', CHR 0xC9, CHR '' '']
     = ''07117fe4a1ebd544965dc19573183da2''"
  by code_simp

text \<open>
  C9. Stripping or lower-casing a query before deriving its key does not change the key.
\<close>

theorem generate_cache_key_prenormalized:
  "generate_cache_key (strip q) = generate_cache_key q
   \<and> generate_cache_key (lower q) = generate_cache_key q"
proof
  have "strip (lower (strip q)) = strip (lower q)"
    by (simp add: strip_lower strip_idem)
  then show "generate_cache_key (strip q) = generate_cache_key q"
    by (rule generate_cache_key_cong)
  have "strip (lower (lower q)) = strip (lower q)"
    by (simp add: lower_idem)
  then show "generate_cache_key (lower q) = generate_cache_key q"
    by (rule generate_cache_key_cong)
qed

section \<open>Key derivation on a str with surrogate code points\<close>

lemma str_isspace_comp_Latin1: "str_isspace \<circ> Latin1 = isspace"
  by (rule ext) simp

lemma str_lower_text: "str_lower (map Latin1 s) = map Latin1 (lower s)"
  by (simp add: str_lower_def lower_def)

lemma str_strip_text: "str_strip (map Latin1 s) = map Latin1 (strip s)"
  by (simp add: str_strip_def strip_def lstrip_def rstrip_def dropWhile_map rev_map
        str_isspace_comp_Latin1)

lemma str_encode_text: "str_encode (map Latin1 s) = Inr (encode s)"
  by (induction s) (simp_all add: encode_def)

lemma generate_cache_key_str_text:
  "generate_cache_key_str (map Latin1 s) = Inr (generate_cache_key s)"
  by (simp add: generate_cache_key_str_def generate_cache_key_def str_lower_text
        str_strip_text str_encode_text)

lemma str_encode_surrogate:
  "\<exists>c\<in>set s. is_surrogate c \<Longrightarrow> str_encode s = Inl UnicodeEncodeError"
proof (induction s)
  case Nil
  then show ?case by simp
next
  case (Cons c cs)
  then show ?case by (cases c) auto
qed

lemma str_encode_no_surrogate:
  "\<forall>c\<in>set s. \<not> is_surrogate c \<Longrightarrow> \<exists>bs. str_encode s = Inr bs"
proof (induction s)
  case Nil
  then show ?case by simp
next
  case (Cons c cs)
  then show ?case by (cases c) auto
qed

lemma is_surrogate_lower_char: "is_surrogate (str_lower_char c) = is_surrogate c"
  by (cases c) simp_all

lemma surrogate_not_space: "is_surrogate c \<Longrightarrow> \<not> str_isspace c"
  by (cases c) simp_all

lemma dropWhile_keeps: "c \<in> set s \<Longrightarrow> \<not> P c \<Longrightarrow> c \<in> set (dropWhile P s)"
  by (induction s) auto

lemma str_strip_keeps: "c \<in> set s \<Longrightarrow> \<not> str_isspace c \<Longrightarrow> c \<in> set (str_strip s)"
proof -
  assume c: "c \<in> set s" and n: "\<not> str_isspace c"
  then have "c \<in> set (rev (dropWhile str_isspace s))"
    by (simp add: dropWhile_keeps)
  then have "c \<in> set (dropWhile str_isspace (rev (dropWhile str_isspace s)))"
    using n by (rule dropWhile_keeps)
  then show ?thesis by (simp add: str_strip_def)
qed

lemma set_str_strip: "set (str_strip s) \<subseteq> set s"
proof -
  have "set (dropWhile str_isspace (rev (dropWhile str_isspace s)))
          \<subseteq> set (rev (dropWhile str_isspace s))"
    by (auto dest: set_dropWhileD)
  also have "\<dots> \<subseteq> set s"
    by (auto dest: set_dropWhileD)
  finally show ?thesis by (simp add: str_strip_def)
qed

lemma surrogate_normalized:
  "(\<exists>c\<in>set (str_strip (str_lower s)). is_surrogate c) \<longleftrightarrow> (\<exists>c\<in>set s. is_surrogate c)"
proof
  assume "\<exists>c\<in>set (str_strip (str_lower s)). is_surrogate c"
  then obtain c where "c \<in> set (str_lower s)" and "is_surrogate c"
    using set_str_strip by blast
  then show "\<exists>c\<in>set s. is_surrogate c"
    by (auto simp: str_lower_def is_surrogate_lower_char)
next
  assume "\<exists>c\<in>set s. is_surrogate c"
  then obtain c where c: "c \<in> set s" and s: "is_surrogate c" by blast
  then have "str_lower_char c \<in> set (str_lower s)" and "is_surrogate (str_lower_char c)"
    by (simp_all add: str_lower_def is_surrogate_lower_char)
  then show "\<exists>c\<in>set (str_strip (str_lower s)). is_surrogate c"
    using str_strip_keeps surrogate_not_space by blast
qed

lemma generate_cache_key_str_raises:
  "\<exists>c\<in>set q. is_surrogate c \<Longrightarrow> generate_cache_key_str q = Inl UnicodeEncodeError"
  by (simp add: generate_cache_key_str_def surrogate_normalized str_encode_surrogate)

lemma generate_cache_key_str_returns:
  assumes "\<forall>c\<in>set q. \<not> is_surrogate c"
  shows "\<exists>k. generate_cache_key_str q = Inr k \<and> length k = 32 \<and> set k \<subseteq> set hex_alphabet"
proof -
  from assms have "\<forall>c\<in>set (str_strip (str_lower q)). \<not> is_surrogate c"
    using surrogate_normalized [of q] by blast
  then obtain bs where "str_encode (str_strip (str_lower q)) = Inr bs"
    using str_encode_no_surrogate by blast
  then have "generate_cache_key_str q = Inr (hexdigest (md5_digest bs))"
    by (simp add: generate_cache_key_str_def)
  then show ?thesis
    by (simp add: length_hexdigest length_md5_digest set_hexdigest)
qed

lemma generate_cache_key_str_cong:
  "str_strip (str_lower a) = str_strip (str_lower b)
   \<Longrightarrow> generate_cache_key_str a = generate_cache_key_str b"
  by (simp add: generate_cache_key_str_def)

text \<open>
  C3. The key derivation is total on the strings without surrogate code points, not
  on every string. On a \<open>str\<close> without surrogates
  \<open>generate_cache_key\<close> returns a key of 32 hexadecimal digits; on a \<open>str\<close> with a
  surrogate it raises \<open>UnicodeEncodeError\<close>. Two \<open>str\<close> that are equal after
  lower-casing and stripping give the same result. On a text the result is the key of
  the text, and on the two queries above it is the digest that \<open>hashlib\<close> gives.
\<close>

theorem generate_cache_key_str_deterministic:
  "((\<forall>c\<in>set q. \<not> is_surrogate c) \<longrightarrow>
      (\<exists>k. generate_cache_key_str q = Inr k \<and> length k = 32
          \<and> set k \<subseteq> set ''0123456789abcdef''))
   \<and> ((\<exists>c\<in>set q. is_surrogate c) \<longrightarrow> generate_cache_key_str q = Inl UnicodeEncodeError)
   \<and> (str_strip (str_lower q1) = str_strip (str_lower q2) \<longrightarrow>
        generate_cache_key_str q1 = generate_cache_key_str q2)
   \<and> generate_cache_key_str (map Latin1 s) = Inr (generate_cache_key s)
   \<and> generate_cache_key_str (map Latin1 ''  What is Go?  '')
       = Inr ''e0a50a2fa3c8b56e60805b7bca4b87bf''
   \<and> generate_cache_key_str
         (map Latin1 [CHR '' '', CHR '' '', CHR ''C'', CHR ''A'', CHR ''F'', CHR 0xC9, CHR '' ''])
       = Inr ''07117fe4a1ebd544965dc19573183da2''"
proof -
  have a: "(\<forall>c\<in>set q. \<not> is_surrogate c) \<longrightarrow>
      (\<exists>k. generate_cache_key_str q = Inr k \<and> length k = 32
          \<and> set k \<subseteq> set ''0123456789abcdef'')"
    using generate_cache_key_str_returns [of q] unfolding hex_alphabet_def by blast
  have b: "(\<exists>c\<in>set q. is_surrogate c) \<longrightarrow> generate_cache_key_str q = Inl UnicodeEncodeError"
    using generate_cache_key_str_raises [of q] by blast
  have c: "str_strip (str_lower q1) = str_strip (str_lower q2) \<longrightarrow>
        generate_cache_key_str q1 = generate_cache_key_str q2"
    using generate_cache_key_str_cong [of q1 q2] by blast
  have d: "generate_cache_key_str (map Latin1 ''  What is Go?  '')
       = Inr ''e0a50a2fa3c8b56e60805b7bca4b87bf''"
    by (simp only: generate_cache_key_str_text generate_cache_key_spaces)
  have e: "generate_cache_key_str
         (map Latin1 [CHR '' '', CHR '' '', CHR ''C'', CHR ''A'', CHR ''F'', CHR 0xC9, CHR '' ''])
       = Inr ''07117fe4a1ebd544965dc19573183da2''"
    by (simp only: generate_cache_key_str_text generate_cache_key_latin1)
  from a b c d e generate_cache_key_str_text [of s] show ?thesis by blast
qed

theorem generate_cache_key_str_deterministic_witness:
  "(\<exists>k. generate_cache_key_str (map Latin1 ''  What is Go?'') = Inr k \<and> length k = 32)
   \<and> generate_cache_key_str (map Latin1 ''  What is Go?'')
       = generate_cache_key_str (map Latin1 ''WHAT IS GO?  '')
   \<and> generate_cache_key_str [Latin1 CHR ''a'', Surrogate 0] = Inl UnicodeEncodeError"
proof -
  have h1: "\<forall>c\<in>set (map Latin1 ''  What is Go?''). \<not> is_surrogate c"
    by auto
  have h2: "\<exists>c\<in>set [Latin1 CHR ''a'', Surrogate 0]. is_surrogate c"
    by simp
  have "strip (lower ''  What is Go?'') = strip (lower ''WHAT IS GO?  '')"
    by code_simp
  then have h3: "str_strip (str_lower (map Latin1 ''  What is Go?''))
          = str_strip (str_lower (map Latin1 ''WHAT IS GO?  ''))"
    by (simp only: str_lower_text str_strip_text)
  from generate_cache_key_str_deterministic [of "map Latin1 ''  What is Go?''"] h1
  have a: "\<exists>k. generate_cache_key_str (map Latin1 ''  What is Go?'') = Inr k \<and> length k = 32"
    by blast
  from generate_cache_key_str_deterministic
         [of _ "map Latin1 ''  What is Go?''" "map Latin1 ''WHAT IS GO?  ''"] h3
  have b: "generate_cache_key_str (map Latin1 ''  What is Go?'')
       = generate_cache_key_str (map Latin1 ''WHAT IS GO?  '')"
    by blast
  from generate_cache_key_str_deterministic [of "[Latin1 CHR ''a'', Surrogate 0]"] h2
  have c: "generate_cache_key_str [Latin1 CHR ''a'', Surrogate 0] = Inl UnicodeEncodeError"
    by blast
  from a b c show ?thesis by blast
qed

text \<open>
  On the \<open>str\<close> that holds the lone surrogate U+D800, \<open>generate_cache_key\<close> returns no
  key: it raises.
\<close>

theorem generate_cache_key_str_total_counterexample:
  "generate_cache_key_str [Surrogate 0] = Inl UnicodeEncodeError"
  by (simp add: generate_cache_key_str_def str_strip_def str_lower_def)

section \<open>The cache manager\<close>

lemma fault_at_tl:
  "fault_at (w\<lparr>redis_faults := tl (redis_faults w), redis_log := l\<rparr>) n = fault_at w (Suc n)"
  by (cases "redis_faults w") (simp_all add: fault_at_def)

lemma redis_get_fault:
  "fault_at w 0 \<Longrightarrow> fst (redis_get w k) = Inl ConnectionError"
  by (simp add: redis_get_def redis_send_def)

lemma redis_get_ok:
  "\<not> fault_at w 0 \<Longrightarrow> fst (redis_get w k) = Inr (map_option fst (redis_db w k))"
  by (simp add: redis_get_def redis_send_def)

lemma snd_redis_get:
  "snd (redis_get w k)
     = w\<lparr>redis_faults := tl (redis_faults w), redis_log := redis_log w @ [GET k]\<rparr>"
  by (simp add: redis_get_def redis_send_def)

lemma snd_RedisCache_get_try: "snd (RedisCache_get_try e w k) = snd (redis_get w k)"
  by (cases "redis_get w k") (simp add: RedisCache_get_try_def split: sum.split option.split)

lemma snd_RedisCache_get:
  "snd (RedisCache_get e w k)
     = w\<lparr>redis_faults := tl (redis_faults w), redis_log := redis_log w @ [GET k]\<rparr>"
proof (cases "RedisCache_get_try e w k")
  case (Pair r w')
  then have "snd (RedisCache_get e w k) = snd (RedisCache_get_try e w k)"
    by (simp add: RedisCache_get_def split: sum.split)
  then show ?thesis by (simp add: snd_RedisCache_get_try snd_redis_get)
qed

lemma RedisCache_get_raise:
  "fst (RedisCache_get_try e w k) = Inl x \<Longrightarrow> fst (RedisCache_get e w k) = PNone"
  by (cases "RedisCache_get_try e w k") (simp add: RedisCache_get_def)

lemma RedisCache_get_fault: "fault_at w 0 \<Longrightarrow> fst (RedisCache_get e w k) = PNone"
  by (simp add: RedisCache_get_def RedisCache_get_try_def redis_get_def redis_send_def)

lemma RedisCache_get_absent: "redis_db w k = None \<Longrightarrow> fst (RedisCache_get e w k) = PNone"
  by (simp add: RedisCache_get_def RedisCache_get_try_def redis_get_def redis_send_def)

lemma RedisCache_get_malformed:
  "redis_db w k = Some (raw, ttl) \<Longrightarrow> json_loads e raw = None
   \<Longrightarrow> fst (RedisCache_get e w k) = PNone"
  by (simp add: RedisCache_get_def RedisCache_get_try_def redis_get_def redis_send_def)

lemma RedisCache_get_stored:
  "\<not> fault_at w 0 \<Longrightarrow> redis_db w k = Some (raw, ttl) \<Longrightarrow> raw \<noteq> []
   \<Longrightarrow> json_loads e raw = Some v \<Longrightarrow> fst (RedisCache_get e w k) = v"
  by (simp add: RedisCache_get_def RedisCache_get_try_def redis_get_def redis_send_def)

text \<open>
  C10. \<open>get\<close> always returns a value: an exception of its \<open>try\<close> block becomes \<open>None\<close>,
  and so do a failing connection, a key that is not stored, and a stored text that
  \<open>json.loads\<close> rejects.
\<close>

theorem RedisCache_get_total:
  "(fst (RedisCache_get_try e w k) = Inl x \<longrightarrow> fst (RedisCache_get e w k) = PNone)
   \<and> (fault_at w 0 \<longrightarrow> fst (RedisCache_get e w k) = PNone)
   \<and> (redis_db w k = None \<longrightarrow> fst (RedisCache_get e w k) = PNone)
   \<and> (redis_db w k = Some (raw, ttl) \<and> json_loads e raw = None
        \<longrightarrow> fst (RedisCache_get e w k) = PNone)"
  using RedisCache_get_raise RedisCache_get_fault RedisCache_get_absent
    RedisCache_get_malformed
  by blast

theorem RedisCache_get_total_witness:
  "fst (RedisCache_get example_env broken_world (generate_cache_key ''What is Go?'')) = PNone
   \<and> fst (RedisCache_get example_env empty_world (generate_cache_key ''What is Go?'')) = PNone
   \<and> fst (RedisCache_get example_env down_world (generate_cache_key ''What is Go?'')) = PNone"
proof -
  let ?k = "generate_cache_key ''What is Go?''"
  have a: "redis_db broken_world ?k = Some (''{oops'', 600) \<and> json_loads example_env ''{oops'' = None"
    by (simp add: broken_world_def empty_world_def example_env_def)
  have b: "redis_db empty_world ?k = None"
    by (simp add: empty_world_def)
  have c: "fault_at down_world 0"
    by (simp add: down_world_def warm_world_def empty_world_def fault_at_def)
  from RedisCache_get_total [of example_env broken_world ?k _ "''{oops''" 600] a
       RedisCache_get_total [of example_env empty_world ?k] b
       RedisCache_get_total [of example_env down_world ?k] c
  show ?thesis by blast
qed

lemma redis_delete_ok:
  "\<not> fault_at w 0 \<Longrightarrow>
   redis_delete w k =
     (Inr (case redis_db w k of None \<Rightarrow> 0 | Some v \<Rightarrow> 1),
      w\<lparr>redis_faults := tl (redis_faults w), redis_log := redis_log w @ [DEL k],
        redis_db := (redis_db w)(k := None)\<rparr>)"
  by (simp add: redis_delete_def redis_send_def)

lemma RedisCache_delete_ok:
  "\<not> fault_at w 0 \<Longrightarrow>
   RedisCache_delete w k =
     (redis_db w k \<noteq> None,
      w\<lparr>redis_faults := tl (redis_faults w), redis_log := redis_log w @ [DEL k],
        redis_db := (redis_db w)(k := None)\<rparr>)"
  by (simp add: RedisCache_delete_def redis_delete_ok split: option.split)

lemma RedisCache_clear_all_ok:
  "\<not> fault_at w 0 \<Longrightarrow>
   RedisCache_clear_all w =
     (True,
      w\<lparr>redis_faults := tl (redis_faults w), redis_log := redis_log w @ [FLUSHDB],
        redis_db := Map.empty\<rparr>)"
  by (simp add: RedisCache_clear_all_def redis_flushdb_def redis_send_def)

lemma no_faults: "redis_faults w = [] \<Longrightarrow> \<not> fault_at w n"
  by (simp add: fault_at_def)

text \<open>
  C7. While the store is reachable, \<open>delete\<close> returns whether the key was stored and
  removes it, and a second \<open>delete\<close> of the same key returns \<open>False\<close> and changes
  nothing; \<open>clear_all\<close> returns \<open>True\<close> and empties the database, and so does a second
  \<open>clear_all\<close>.
\<close>

theorem delete_and_clear_all_idempotent:
  assumes "redis_faults w = []"
  shows "(case RedisCache_delete w k of (removed, w1) \<Rightarrow>
            removed = (redis_db w k \<noteq> None)
            \<and> redis_db w1 = (redis_db w)(k := None)
            \<and> (case RedisCache_delete w1 k of (again, w2) \<Rightarrow>
                  again = False \<and> redis_db w2 = redis_db w1))
         \<and> (case RedisCache_clear_all w of (cleared, w1) \<Rightarrow>
               cleared = True \<and> redis_db w1 = Map.empty
               \<and> (case RedisCache_clear_all w1 of (again, w2) \<Rightarrow>
                     again = True \<and> redis_db w2 = Map.empty))"
proof -
  from assms have f: "\<not> fault_at w 0" by (rule no_faults)
  let ?d = "w\<lparr>redis_faults := tl (redis_faults w), redis_log := redis_log w @ [DEL k],
        redis_db := (redis_db w)(k := None)\<rparr>"
  let ?c = "w\<lparr>redis_faults := tl (redis_faults w), redis_log := redis_log w @ [FLUSHDB],
        redis_db := Map.empty\<rparr>"
  from assms have "redis_faults ?d = []" and "redis_faults ?c = []" by simp_all
  then have fd: "\<not> fault_at ?d 0" and fc: "\<not> fault_at ?c 0" by (simp_all add: no_faults)
  show ?thesis
    by (simp add: RedisCache_delete_ok [OF f] RedisCache_delete_ok [OF fd]
          RedisCache_clear_all_ok [OF f] RedisCache_clear_all_ok [OF fc])
qed

theorem delete_and_clear_all_idempotent_witness:
  "fst (RedisCache_delete warm_world (generate_cache_key ''What is Go?'')) = True
   \<and> fst (RedisCache_delete (snd (RedisCache_delete warm_world (generate_cache_key ''What is Go?'')))
           (generate_cache_key ''What is Go?'')) = False
   \<and> redis_db (snd (RedisCache_clear_all warm_world)) = Map.empty
   \<and> fst (RedisCache_clear_all (snd (RedisCache_clear_all warm_world))) = True"
proof -
  have h: "redis_faults warm_world = []"
    by (simp add: warm_world_def empty_world_def)
  have p: "redis_db warm_world (generate_cache_key ''What is Go?'') \<noteq> None"
    by (simp add: warm_world_def empty_world_def)
  from delete_and_clear_all_idempotent [OF h, of "generate_cache_key ''What is Go?''"] p
  show ?thesis by (auto split: prod.splits)
qed

section \<open>The chat endpoint\<close>

text \<open>
  C4. A query that is empty or consists of whitespace only is rejected with status 400;
  the world is left as it was: no query goes to the provider, no command goes to Redis
  and the database is unchanged.
\<close>

theorem chat_rejects_empty_query:
  assumes "\<forall>c\<in>set rq. isspace c"
  shows "chat e w rq = (Inl (HTTPException 400 (Message ''Query cannot be empty'')), w)
         \<and> provider_log (snd (chat e w rq)) = provider_log w
         \<and> redis_log (snd (chat e w rq)) = redis_log w
         \<and> redis_db (snd (chat e w rq)) = redis_db w"
proof -
  from assms have "strip rq = []" by (simp add: strip_empty_iff)
  then show ?thesis by (simp add: chat_def)
qed

theorem chat_rejects_empty_query_witness:
  "chat example_env warm_world ''   ''
       = (Inl (HTTPException 400 (Message ''Query cannot be empty'')), warm_world)
   \<and> chat example_env warm_world ''''
       = (Inl (HTTPException 400 (Message ''Query cannot be empty'')), warm_world)"
proof -
  have h: "\<forall>c\<in>set ''   ''. isspace c" by (simp add: isspace_def)
  have h0: "\<forall>c\<in>set ''''. isspace c" by simp
  from chat_rejects_empty_query [OF h, of example_env warm_world]
       chat_rejects_empty_query [OF h0, of example_env warm_world]
  show ?thesis by blast
qed

section \<open>Floats\<close>

lemma round_half_even_near: "\<bar>of_int (round_half_even z) - z\<bar> \<le> 1 / 2"
proof -
  have "of_int \<lfloor>z\<rfloor> \<le> z" and "z < of_int \<lfloor>z\<rfloor> + 1" by linarith+
  then show ?thesis
    by (auto simp: round_half_even_def Let_def abs_le_iff)
qed

lemma round_half_even_of_int: "round_half_even (of_int n) = n"
  by (simp add: round_half_even_def)

lemma round_half_even_nonneg: "0 \<le> z \<Longrightarrow> 0 \<le> round_half_even z"
  by (auto simp: round_half_even_def Let_def)

lemma floorlog_2_pos: "0 < n \<Longrightarrow> 1 \<le> floorlog 2 n"
  using floorlog_eq_zero_iff [of 2 n] by (cases "floorlog 2 n") auto

lemma floor_log2_le_0:
  assumes "0 < x" and "x \<le> 1"
  shows "floor_log2 x \<le> 0"
proof (cases "1 \<le> x")
  case True
  with assms have "x = 1" by simp
  then show ?thesis by (simp add: floor_log2_def floorlog_def)
next
  case False
  with assms have "1 < 1 / x" by simp
  then have "1 \<le> \<lfloor>1 / x\<rfloor>" by linarith
  then have "0 < nat \<lfloor>1 / x\<rfloor>" by simp
  then have "1 \<le> floorlog 2 (nat \<lfloor>1 / x\<rfloor>)" by (rule floorlog_2_pos)
  with False show ?thesis by (simp add: floor_log2_def Let_def)
qed

lemma double_round_unit:
  assumes "0 < x" and "x \<le> 1"
  shows "\<exists>y. double_round x = Some y \<and> \<bar>y - x\<bar> \<le> 1 / 2 ^ 53 \<and> 0 \<le> y"
proof -
  define e where "e = max (floor_log2 x) (- 1022)"
  define u :: real where "u = 2 powi (e - 52)"
  define n where "n = round_half_even (x / u)"
  define y where "y = of_int n * u"
  have e: "e \<le> 0" using floor_log2_le_0 [OF assms] by (simp add: e_def)
  have u0: "0 < u" by (simp add: u_def)
  have "u \<le> 2 powi (- 52)"
    unfolding u_def using e by (intro power_int_increasing) simp_all
  then have u52: "u \<le> 1 / 2 ^ 52"
    by (simp add: power_int_minus_divide)
  have "\<bar>of_int n - x / u\<bar> \<le> 1 / 2"
    unfolding n_def by (rule round_half_even_near)
  then have "\<bar>of_int n - x / u\<bar> * u \<le> 1 / 2 * u"
    using u0 by (intro mult_right_mono) simp_all
  moreover have "\<bar>of_int n - x / u\<bar> * u = \<bar>y - x\<bar>"
  proof -
    have "\<bar>of_int n - x / u\<bar> * u = \<bar>(of_int n - x / u) * u\<bar>"
      using u0 by (simp add: abs_mult)
    also have "(of_int n - x / u) * u = y - x"
      using u0 by (simp add: y_def field_simps)
    finally show ?thesis .
  qed
  ultimately have near: "\<bar>y - x\<bar> \<le> u / 2" by simp
  with u52 have acc: "\<bar>y - x\<bar> \<le> 1 / 2 ^ 53" by simp
  have "0 \<le> x / u" using assms u0 by simp
  then have "0 \<le> n" unfolding n_def by (rule round_half_even_nonneg)
  then have y0: "0 \<le> y" using u0 by (simp add: y_def)
  have "(1::real) / 2 ^ 53 \<le> 1" by simp
  with acc assms have "y \<le> 2" by linarith
  moreover have "(2::real) < 2 powi 1024" by simp
  ultimately have small: "\<not> 2 powi 1024 \<le> y" by linarith
  have "double_round x = Some y"
    using assms small
    by (simp add: double_round_def Let_def e_def [symmetric] u_def [symmetric]
          n_def [symmetric] y_def [symmetric])
  with acc y0 show ?thesis by blast
qed

lemma double_round_0: "double_round 0 = Some 0"
  by (simp add: double_round_def)

lemma double_round_exact:
  assumes "x \<noteq> 0"
    and "\<bar>x\<bar> = of_int n * 2 powi (max (floor_log2 \<bar>x\<bar>) (- 1022) - 52)"
    and "\<bar>x\<bar> < 2 powi 1024"
  shows "double_round x = Some x"
proof -
  define u :: real where "u = 2 powi (max (floor_log2 \<bar>x\<bar>) (- 1022) - 52)"
  have u0: "0 < u" by (simp add: u_def)
  from assms(2) have ax: "\<bar>x\<bar> = of_int n * u" by (simp add: u_def)
  then have "\<bar>x\<bar> / u = of_int n" using u0 by simp
  then have "of_int (round_half_even (\<bar>x\<bar> / u)) * u = \<bar>x\<bar>"
    by (simp add: round_half_even_of_int ax)
  moreover have "sgn x * \<bar>x\<bar> = x" by (simp add: sgn_if)
  ultimately show ?thesis
    using assms(1,3) by (simp add: double_round_def Let_def u_def [symmetric])
qed

lemma float_of_int_exact:
  assumes "\<bar>i\<bar> \<le> 2 ^ 53"
  shows "float_of_int i = Some (of_int i)"
proof (cases "i = 0")
  case True
  then show ?thesis by (simp add: float_of_int_def double_round_def)
next
  case False
  define a where "a = nat \<bar>i\<bar>"
  define b where "b = floorlog 2 a"
  have a0: "0 < a" using False by (simp add: a_def)
  have ax: "\<bar>real_of_int i\<bar> = real a" by (simp add: a_def)
  have a53: "a \<le> 2 ^ 53" using assms by (simp add: a_def nat_le_iff)
  have b1: "1 \<le> b" unfolding b_def using a0 by (rule floorlog_2_pos)
  have "a < 2 ^ 54" using a53 by simp
  then have b54: "b \<le> 54" unfolding b_def by (simp add: floorlog_le_iff)
  have "1 \<le> real a" using a0 by simp
  then have fl: "floor_log2 (real a) = int b - 1"
    by (simp add: floor_log2_def b_def)
  have mx: "max (int b - 1) (- 1022) = int b - 1" using b1 by simp
  have "\<exists>n. real a = of_int n * 2 powi (int b - 1 - 52)"
  proof (cases "b \<le> 53")
    case True
    define j where "j = 53 - b"
    have "int b - 1 - 52 = - int j" using True by (simp add: j_def)
    then have "(2::real) powi (int b - 1 - 52) = 1 / 2 ^ j"
      by (simp add: power_int_minus_divide)
    then have "real a = of_int (int a * 2 ^ j) * 2 powi (int b - 1 - 52)"
      by simp
    then show ?thesis by blast
  next
    case False
    with b54 have b: "b = 54" by simp
    from floorlog_bounds [of a 2] a0 have "2 ^ (b - 1) \<le> a" by (simp add: b_def)
    with b a53 have "a = 2 ^ 53" by simp
    then have "real a = of_int (2 ^ 52) * 2 powi (int b - 1 - 52)"
      by (simp add: b)
    then show ?thesis by blast
  qed
  then obtain n where n: "real a = of_int n * 2 powi (int b - 1 - 52)" by blast
  have "real a \<le> 2 ^ 53" using a53 by (metis of_nat_le_iff of_nat_numeral of_nat_power)
  also have "\<dots> < (2::real) powi 1024" by simp
  finally have small: "real a < 2 powi 1024" .
  have "double_round (real_of_int i) = Some (real_of_int i)"
  proof (rule double_round_exact)
    show "real_of_int i \<noteq> 0" using False by simp
    show "\<bar>real_of_int i\<bar> =
        of_int n * 2 powi (max (floor_log2 \<bar>real_of_int i\<bar>) (- 1022) - 52)"
      by (simp only: ax fl mx n [symmetric])
    show "\<bar>real_of_int i\<bar> < 2 powi 1024"
      by (simp only: ax small)
  qed
  then show ?thesis by (simp add: float_of_int_def)
qed

lemma truediv_counters:
  assumes "0 \<le> h" and "0 \<le> m"
  shows "\<exists>r. truediv h (max 1 (h + m)) = Inr r
           \<and> \<bar>r - of_int h / of_int (max 1 (h + m))\<bar> \<le> 1 / 2 ^ 53
           \<and> 0 \<le> r"
proof (cases "h = 0")
  case True
  then show ?thesis by (simp add: truediv_def double_round_0)
next
  case False
  define d where "d = max 1 (h + m)"
  have d: "1 \<le> d" "h \<le> d" using assms by (simp_all add: d_def)
  from False assms have h: "0 < h" by simp
  have pos: "0 < real_of_int h / real_of_int d" using h d by simp
  have le: "real_of_int h / real_of_int d \<le> 1" using h d by simp
  from double_round_unit [OF pos le] obtain y
    where "double_round (real_of_int h / real_of_int d) = Some y"
      and "\<bar>y - real_of_int h / real_of_int d\<bar> \<le> 1 / 2 ^ 53" and "0 \<le> y"
    by blast
  then show ?thesis using d by (simp add: truediv_def d_def [symmetric])
qed

lemma truediv_0: "b \<noteq> 0 \<Longrightarrow> truediv 0 b = Inr 0"
  by (simp add: truediv_def double_round_0)

lemma truediv_not_zero_division: "b \<noteq> 0 \<Longrightarrow> truediv a b \<noteq> Inl ZeroDivisionError"
  by (simp add: truediv_def split: option.split)

section \<open>The statistics endpoint\<close>

lemma hit_rate_of_not_zero_division: "hit_rate_of info \<noteq> Inl ZeroDivisionError"
proof -
  have "max 1 (h + m) \<noteq> 0" for h m :: int by simp
  then show ?thesis
    by (simp add: hit_rate_of_def truediv_not_zero_division
          split: info_value.split prod.split)
qed

lemma redis_info_cmd_ok:
  "\<not> fault_at w 0 \<Longrightarrow>
   redis_info_cmd w =
     (Inr (redis_info w),
      w\<lparr>redis_faults := tl (redis_faults w), redis_log := redis_log w @ [INFO]\<rparr>)"
  by (simp add: redis_info_cmd_def redis_send_def)

lemma cache_stats_not_zero_division:
  "fst (cache_stats w) \<noteq>
     Inl (HTTPException 500 (Wrapped ''Error getting cache statistics: '' ZeroDivisionError))"
proof (cases "fault_at w 0")
  case True
  then show ?thesis by (simp add: cache_stats_def redis_info_cmd_def redis_send_def)
next
  case False
  then show ?thesis
    using hit_rate_of_not_zero_division [of "redis_info w"]
    by (auto simp: cache_stats_def redis_info_cmd_ok split: sum.split)
qed

text \<open>
  C8. When \<open>INFO\<close> answers with integer counters that are not negative (a missing
  counter counts as 0), the endpoint answers, and the reported hit rate is the float
  that Python's division gives for the hits and the maximum of 1 and the sum of hits
  and misses: the double nearest to that quotient, no further from it than \<open>2 ^ -53\<close>.
  With no hits and no misses the rate is 0. Whatever \<open>INFO\<close> answers, the endpoint
  never fails with a division by zero.
\<close>

theorem cache_stats_hit_rate:
  assumes "\<not> fault_at w 0"
    and "info_get (redis_info w) ''keyspace_hits'' (InfoInt 0) = InfoInt h"
    and "info_get (redis_info w) ''keyspace_misses'' (InfoInt 0) = InfoInt m"
    and "0 \<le> h" and "0 \<le> m"
  shows "\<exists>s. fst (cache_stats w) = Inr s
           \<and> truediv h (max 1 (h + m)) = Inr (hit_rate s)
           \<and> \<bar>hit_rate s - of_int h / of_int (max 1 (h + m))\<bar> \<le> 1 / 2 ^ 53
           \<and> (h = 0 \<and> m = 0 \<longrightarrow> hit_rate s = 0)
           \<and> fst (cache_stats w') \<noteq>
               Inl (HTTPException 500
                     (Wrapped ''Error getting cache statistics: '' ZeroDivisionError))"
proof -
  from truediv_counters [OF assms(4,5)] obtain r
    where r: "truediv h (max 1 (h + m)) = Inr r"
      and acc: "\<bar>r - of_int h / of_int (max 1 (h + m))\<bar> \<le> 1 / 2 ^ 53"
    by blast
  have hr: "hit_rate_of (redis_info w) = Inr r"
    using assms(2,3) r by (simp add: hit_rate_of_def)
  have "max 1 (0 + m) \<noteq> 0" by simp
  then have "truediv 0 (max 1 (0 + m)) = Inr 0" by (rule truediv_0)
  with r have z: "h = 0 \<Longrightarrow> r = 0" by auto
  have "\<exists>s. fst (cache_stats w) = Inr s \<and> hit_rate s = r"
    using assms(1) hr by (simp add: cache_stats_def redis_info_cmd_ok)
  with r acc z cache_stats_not_zero_division [of w'] show ?thesis by auto
qed

theorem cache_stats_hit_rate_witness:
  "(\<exists>s. fst (cache_stats stats_world) = Inr s
        \<and> hit_rate s = 6004799503160661 / 18014398509481984)
   \<and> (\<exists>s. fst (cache_stats empty_world) = Inr s \<and> hit_rate s = 0)"
proof -
  have f: "\<not> fault_at stats_world 0" "\<not> fault_at empty_world 0"
    by (simp_all add: stats_world_def empty_world_def fault_at_def)
  have a: "info_get (redis_info stats_world) ''keyspace_hits'' (InfoInt 0) = InfoInt 1"
          "info_get (redis_info stats_world) ''keyspace_misses'' (InfoInt 0) = InfoInt 2"
    by (simp_all add: stats_world_def empty_world_def info_get_def)
  have b: "info_get (redis_info empty_world) ''keyspace_hits'' (InfoInt 0) = InfoInt 0"
          "info_get (redis_info empty_world) ''keyspace_misses'' (InfoInt 0) = InfoInt 0"
    by (simp_all add: empty_world_def info_get_def)
  have t: "truediv 1 (max 1 (1 + 2)) = Inr (6004799503160661 / 18014398509481984)"
    by code_simp
  from cache_stats_hit_rate [OF f(1) a] cache_stats_hit_rate [OF f(2) b] t
  show ?thesis by auto
qed

section \<open>The chat endpoint on a miss\<close>

lemma fst_AIEngine_generate_response:
  "fst (AIEngine_generate_response e w q) =
     (case completion_content (completions_create e q) of
        Inr ai_response \<Rightarrow> ai_response
      | Inl m \<Rightarrow> ''AI response to: '' @ q @ '' (API Error: '' @ m @ '')'')"
  by (simp add: AIEngine_generate_response_def Let_def split: sum.split)

lemma snd_AIEngine_generate_response:
  "snd (AIEngine_generate_response e w q) = w\<lparr>provider_log := provider_log w @ [q]\<rparr>"
  by (simp add: AIEngine_generate_response_def Let_def split: sum.split)

lemma AIEngine_generate_response_world:
  "fst (AIEngine_generate_response e w q) = fst (AIEngine_generate_response e w' q)"
  by (simp add: fst_AIEngine_generate_response)

lemma RedisCache_set_fault:
  "fault_at w 0 \<Longrightarrow> fst (RedisCache_set e w k v ttl) = False"
  by (simp add: RedisCache_set_def redis_setex_def redis_send_def Let_def)

lemma RedisCache_set_eq:
  "ttl \<noteq> 0 \<Longrightarrow> RedisCache_set e w k v ttl =
     (\<not> fault_at w 0,
      if fault_at w 0
      then w\<lparr>redis_faults := tl (redis_faults w),
             redis_log := redis_log w @ [SETEX k ttl (json_dumps e v)]\<rparr>
      else w\<lparr>redis_faults := tl (redis_faults w),
             redis_log := redis_log w @ [SETEX k ttl (json_dumps e v)],
             redis_db := (redis_db w)(k \<mapsto> (json_dumps e v, ttl))\<rparr>)"
  by (simp add: RedisCache_set_def redis_setex_def redis_send_def Let_def)

lemma chat_miss_eq:
  "chat_miss e w k q =
     (Inr \<lparr>query = q, response = fst (AIEngine_generate_response e w q), cached = False,
           timestamp = clock e\<rparr>,
      snd (RedisCache_set e (w\<lparr>provider_log := provider_log w @ [q]\<rparr>) k
            (PDict (response_data q (fst (AIEngine_generate_response e w q)) (clock e))) 600))"
proof (cases "AIEngine_generate_response e w q")
  case (Pair t w1)
  then have t: "t = fst (AIEngine_generate_response e w q)"
    and w1: "w1 = w\<lparr>provider_log := provider_log w @ [q]\<rparr>"
    using snd_AIEngine_generate_response [of e w q] by simp_all
  show ?thesis
    unfolding chat_miss_def Pair
    by (simp add: Let_def t [symmetric] w1 [symmetric] split: prod.split)
qed

lemma chat_on_miss:
  assumes "strip rq \<noteq> []"
    and "\<not> truthy (fst (RedisCache_get e w (generate_cache_key (strip rq))))"
  shows "chat e w rq =
     (Inr \<lparr>query = strip rq, response = fst (AIEngine_generate_response e w (strip rq)),
           cached = False, timestamp = clock e\<rparr>,
      snd (RedisCache_set e
            (w\<lparr>redis_faults := tl (redis_faults w),
               redis_log := redis_log w @ [GET (generate_cache_key (strip rq))],
               provider_log := provider_log w @ [strip rq]\<rparr>)
            (generate_cache_key (strip rq))
            (PDict (response_data (strip rq)
                     (fst (AIEngine_generate_response e w (strip rq))) (clock e))) 600))"
proof (cases "RedisCache_get e w (generate_cache_key (strip rq))")
  case (Pair v w1)
  with assms(2) have v: "\<not> truthy v" by simp
  from Pair snd_RedisCache_get [of e w "generate_cache_key (strip rq)"]
  have w1: "w1 = w\<lparr>redis_faults := tl (redis_faults w),
               redis_log := redis_log w @ [GET (generate_cache_key (strip rq))]\<rparr>"
    by simp
  have "chat e w rq =
      (case chat_miss e w1 (generate_cache_key (strip rq)) (strip rq) of
         (Inl x, w2) \<Rightarrow> (Inl (HTTPException 500 (Wrapped ''Internal server error: '' x)), w2)
       | (Inr r, w2) \<Rightarrow> (Inr r, w2))"
    using assms(1) v by (simp add: chat_def Let_def Pair)
  also have "\<dots> = (Inr \<lparr>query = strip rq,
        response = fst (AIEngine_generate_response e w1 (strip rq)),
        cached = False, timestamp = clock e\<rparr>,
      snd (RedisCache_set e (w1\<lparr>provider_log := provider_log w1 @ [strip rq]\<rparr>)
            (generate_cache_key (strip rq))
            (PDict (response_data (strip rq)
                     (fst (AIEngine_generate_response e w1 (strip rq))) (clock e))) 600))"
    by (simp add: chat_miss_eq)
  finally show ?thesis
    by (simp add: w1 fst_AIEngine_generate_response)
qed

lemma fault_at_shift:
  "redis_faults w' = tl (redis_faults w) \<Longrightarrow> fault_at w' n = fault_at w (Suc n)"
  by (cases "redis_faults w") (simp_all add: fault_at_def)

lemma chat_on_miss_world:
  assumes "strip rq \<noteq> []"
    and "\<not> truthy (fst (RedisCache_get e w (generate_cache_key (strip rq))))"
  shows "provider_log (snd (chat e w rq)) = provider_log w @ [strip rq]"
    and "redis_log (snd (chat e w rq)) =
           redis_log w @ [GET (generate_cache_key (strip rq)),
             SETEX (generate_cache_key (strip rq)) 600
               (json_dumps e (PDict (response_data (strip rq)
                  (fst (AIEngine_generate_response e w (strip rq))) (clock e))))]"
    and "\<not> fault_at w 1 \<Longrightarrow>
         redis_db (snd (chat e w rq)) (generate_cache_key (strip rq)) =
           Some (json_dumps e (PDict (response_data (strip rq)
                  (fst (AIEngine_generate_response e w (strip rq))) (clock e))), 600)"
proof -
  let ?w1 = "w\<lparr>redis_faults := tl (redis_faults w),
               redis_log := redis_log w @ [GET (generate_cache_key (strip rq))],
               provider_log := provider_log w @ [strip rq]\<rparr>"
  have f: "fault_at ?w1 0 = fault_at w 1"
    by (simp add: fault_at_shift)
  show "provider_log (snd (chat e w rq)) = provider_log w @ [strip rq]"
    by (simp add: chat_on_miss [OF assms] RedisCache_set_eq)
  show "redis_log (snd (chat e w rq)) =
           redis_log w @ [GET (generate_cache_key (strip rq)),
             SETEX (generate_cache_key (strip rq)) 600
               (json_dumps e (PDict (response_data (strip rq)
                  (fst (AIEngine_generate_response e w (strip rq))) (clock e))))]"
    by (simp add: chat_on_miss [OF assms] RedisCache_set_eq)
  show "redis_db (snd (chat e w rq)) (generate_cache_key (strip rq)) =
           Some (json_dumps e (PDict (response_data (strip rq)
                  (fst (AIEngine_generate_response e w (strip rq))) (clock e))), 600)"
    if "\<not> fault_at w 1"
    using that f by (simp add: chat_on_miss [OF assms] RedisCache_set_eq)
qed

lemma strip_example: "strip ''  What is Go?  '' = ''What is Go?''"
  by code_simp

text \<open>
  C1. On a miss for a query that is not empty after stripping, \<open>chat\<close> sends the stripped
  query to the provider once, sends \<open>SETEX\<close> for the key of the stripped query with 600
  seconds and the serialised \<open>response_data\<close>, whose \<open>query\<close> is the stripped query,
  whose \<open>response\<close> is the generated text and whose \<open>timestamp\<close> is the clock value,
  and returns these with \<open>cached = False\<close> and the same timestamp. When that command
  reaches the store, the database holds the serialised entry under the key.
\<close>

theorem chat_miss_generates_and_stores:
  assumes "strip rq \<noteq> []"
    and "\<not> truthy (fst (RedisCache_get e w (generate_cache_key (strip rq))))"
  shows "fst (chat e w rq) =
           Inr \<lparr>query = strip rq, response = fst (AIEngine_generate_response e w (strip rq)),
                 cached = False, timestamp = clock e\<rparr>
         \<and> provider_log (snd (chat e w rq)) = provider_log w @ [strip rq]
         \<and> redis_log (snd (chat e w rq)) =
             redis_log w @ [GET (generate_cache_key (strip rq)),
               SETEX (generate_cache_key (strip rq)) 600
                 (json_dumps e (PDict (response_data (strip rq)
                    (fst (AIEngine_generate_response e w (strip rq))) (clock e))))]
         \<and> (\<not> fault_at w 1 \<longrightarrow>
               redis_db (snd (chat e w rq)) (generate_cache_key (strip rq)) =
                 Some (json_dumps e (PDict (response_data (strip rq)
                    (fst (AIEngine_generate_response e w (strip rq))) (clock e))), 600))
         \<and> map_of (response_data (strip rq)
                    (fst (AIEngine_generate_response e w (strip rq))) (clock e)) ''query''
             = Some (PStr (strip rq))
         \<and> map_of (response_data (strip rq)
                    (fst (AIEngine_generate_response e w (strip rq))) (clock e)) ''response''
             = Some (PStr (fst (AIEngine_generate_response e w (strip rq))))
         \<and> map_of (response_data (strip rq)
                    (fst (AIEngine_generate_response e w (strip rq))) (clock e)) ''timestamp''
             = Some (PFloat (clock e))"
proof -
  have "fst (chat e w rq) =
           Inr \<lparr>query = strip rq, response = fst (AIEngine_generate_response e w (strip rq)),
                 cached = False, timestamp = clock e\<rparr>"
    by (simp add: chat_on_miss [OF assms])
  moreover have "map_of (response_data q t n) ''query'' = Some (PStr q)
      \<and> map_of (response_data q t n) ''response'' = Some (PStr t)
      \<and> map_of (response_data q t n) ''timestamp'' = Some (PFloat n)" for q t n
    by (simp add: response_data_def)
  ultimately show ?thesis
    using chat_on_miss_world [OF assms] by blast
qed

theorem chat_miss_generates_and_stores_witness:
  "fst (chat example_env empty_world ''  What is Go?  '') =
     Inr \<lparr>query = ''What is Go?'', response = ''A programming language.'',
           cached = False, timestamp = 1700000000\<rparr>
   \<and> provider_log (snd (chat example_env empty_world ''  What is Go?  '')) = [''What is Go?'']
   \<and> redis_db (snd (chat example_env empty_world ''  What is Go?  ''))
         (generate_cache_key ''What is Go?'') = Some (''<entry>'', 600)"
proof -
  have ne: "strip ''  What is Go?  '' \<noteq> []"
    by (simp add: strip_example)
  have miss: "\<not> truthy (fst (RedisCache_get example_env empty_world
                  (generate_cache_key (strip ''  What is Go?  ''))))"
    by (simp add: RedisCache_get_absent empty_world_def)
  have nf: "\<not> fault_at empty_world 1"
    by (simp add: fault_at_def empty_world_def)
  have t: "fst (AIEngine_generate_response example_env w ''What is Go?'')
             = ''A programming language.''" for w
    by (simp add: fst_AIEngine_generate_response example_env_def)
  have pl: "provider_log empty_world = []"
    by (simp add: empty_world_def)
  have d: "json_dumps example_env
             (PDict (response_data ''What is Go?'' ''A programming language.'' 1700000000))
           = ''<entry>''"
    by (simp add: example_env_def example_entry_def response_data_def)
  have c: "clock example_env = 1700000000"
    by (simp add: example_env_def)
  from chat_miss_generates_and_stores [OF ne miss] nf
  show ?thesis
    by (simp add: strip_example t d c pl)
qed

text \<open>
  C5. On a miss, when the call of the provider raises (or its reply has no usable
  content), \<open>chat\<close> still returns a response: not cached, with the non-empty text
  \<open>AI response to: <query> (API Error: <error>)\<close>, and \<open>SETEX\<close> with that response is
  still sent to the store.
\<close>

theorem chat_degraded_response:
  assumes "strip rq \<noteq> []"
    and "\<not> truthy (fst (RedisCache_get e w (generate_cache_key (strip rq))))"
    and "completion_content (completions_create e (strip rq)) = Inl m"
  shows "\<exists>r. fst (chat e w rq) = Inr r
           \<and> cached r = False
           \<and> response r = ''AI response to: '' @ strip rq @ '' (API Error: '' @ m @ '')''
           \<and> response r \<noteq> []
           \<and> redis_log (snd (chat e w rq)) =
               redis_log w @ [GET (generate_cache_key (strip rq)),
                 SETEX (generate_cache_key (strip rq)) 600
                   (json_dumps e (PDict (response_data (strip rq) (response r) (clock e))))]"
proof -
  have t: "fst (AIEngine_generate_response e w (strip rq))
             = ''AI response to: '' @ strip rq @ '' (API Error: '' @ m @ '')''"
    by (simp add: fst_AIEngine_generate_response assms(3))
  have "fst (chat e w rq) =
           Inr \<lparr>query = strip rq, response = fst (AIEngine_generate_response e w (strip rq)),
                 cached = False, timestamp = clock e\<rparr>"
    by (simp add: chat_on_miss [OF assms(1,2)])
  with chat_on_miss_world(2) [OF assms(1,2)] show ?thesis
    by (simp add: t)
qed

theorem chat_degraded_response_witness:
  "\<exists>r. fst (chat failing_env empty_world ''  What is Go?  '') = Inr r
      \<and> cached r = False
      \<and> response r = ''AI response to: What is Go? (API Error: Connection error.)''"
proof -
  have ne: "strip ''  What is Go?  '' \<noteq> []"
    by (simp add: strip_example)
  have miss: "\<not> truthy (fst (RedisCache_get failing_env empty_world
                  (generate_cache_key (strip ''  What is Go?  ''))))"
    by (simp add: RedisCache_get_absent empty_world_def)
  have f: "completion_content (completions_create failing_env (strip ''  What is Go?  ''))
             = Inl ''Connection error.''"
    by (simp add: failing_env_def example_env_def)
  from chat_degraded_response [OF ne miss f]
  show ?thesis
    by (auto simp: strip_example)
qed

text \<open>
  C6. A connection failure makes \<open>get\<close> return \<open>None\<close> and \<open>set\<close> return \<open>False\<close>. When the
  lookup fails, or when it misses and the write fails, \<open>chat\<close> returns the generated
  text with \<open>cached = False\<close>.
\<close>

theorem cache_failures_are_soft:
  "(fault_at w 0 \<longrightarrow> fst (RedisCache_get e w k) = PNone)
   \<and> (fault_at w 0 \<longrightarrow> fst (RedisCache_set e w k v ttl) = False)
   \<and> (strip rq \<noteq> []
        \<and> (fault_at w 0
            \<or> (\<not> truthy (fst (RedisCache_get e w (generate_cache_key (strip rq))))
                \<and> fault_at w 1))
       \<longrightarrow> fst (chat e w rq) =
             Inr \<lparr>query = strip rq,
                   response = fst (AIEngine_generate_response e w (strip rq)),
                   cached = False, timestamp = clock e\<rparr>)"
proof -
  have a: "fault_at w 0 \<Longrightarrow> fst (RedisCache_get e w k) = PNone" for k
    by (rule RedisCache_get_fault)
  have b: "fault_at w 0 \<Longrightarrow> fst (RedisCache_set e w k v ttl) = False"
    by (rule RedisCache_set_fault)
  have c: "fst (chat e w rq) =
             Inr \<lparr>query = strip rq,
                   response = fst (AIEngine_generate_response e w (strip rq)),
                   cached = False, timestamp = clock e\<rparr>"
    if "strip rq \<noteq> []"
      and "\<not> truthy (fst (RedisCache_get e w (generate_cache_key (strip rq))))"
    using that by (simp add: chat_on_miss)
  have d: "\<not> truthy (fst (RedisCache_get e w (generate_cache_key (strip rq))))"
    if "fault_at w 0"
    using that by (simp add: a)
  from a [of k] b c d show ?thesis by blast
qed

theorem cache_failures_are_soft_witness:
  "fst (RedisCache_get example_env down_world (generate_cache_key ''What is Go?'')) = PNone
   \<and> fst (RedisCache_set example_env down_world (generate_cache_key ''What is Go?'')
            example_entry 600) = False
   \<and> fst (chat example_env down_world ''  What is Go?  '') =
       Inr \<lparr>query = ''What is Go?'', response = ''A programming language.'',
             cached = False, timestamp = 1700000000\<rparr>"
proof -
  have ne: "strip ''  What is Go?  '' \<noteq> []"
    by (simp add: strip_example)
  have f: "fault_at down_world 0"
    by (simp add: fault_at_def down_world_def warm_world_def empty_world_def)
  have t: "fst (AIEngine_generate_response example_env w ''What is Go?'')
             = ''A programming language.''" for w
    by (simp add: fst_AIEngine_generate_response example_env_def)
  have c: "clock example_env = 1700000000"
    by (simp add: example_env_def)
  from cache_failures_are_soft [of down_world example_env "generate_cache_key ''What is Go?''"
         example_entry 600 "''  What is Go?  ''"] ne f
  show ?thesis
    by (simp add: strip_example t c)
qed

section \<open>The chat endpoint on a hit\<close>

lemma chat_hit_entry:
  assumes "map_of kvs ''query'' = Some (PStr sq)"
    and "map_of kvs ''response'' = Some (PStr sr)"
    and "map_of kvs ''timestamp'' = Some t"
    and "as_float e t = Some ts"
  shows "chat_hit e (PDict kvs) =
           Inr \<lparr>query = sq, response = sr, cached = True, timestamp = ts\<rparr>"
  using assms by (simp add: chat_hit_def)

lemma as_float_stored:
  "t = PFloat ts \<or> (\<exists>i. t = PInt i \<and> \<bar>i\<bar> \<le> 2 ^ 53 \<and> ts = of_int i)
   \<Longrightarrow> as_float e t = Some ts"
  by (auto simp: float_of_int_exact)

lemma key_example:
  "generate_cache_key (strip ''  WHAT IS GO?'') = generate_cache_key ''What is Go?''"
proof (rule generate_cache_key_cong)
  show "strip (lower (strip ''  WHAT IS GO?'')) = strip (lower ''What is Go?'')"
    by code_simp
qed

text \<open>
  C2. On a hit (the store answers with a text that \<open>json.loads\<close> reads as a dictionary
  with the strings \<open>query\<close> and \<open>response\<close> and a \<open>timestamp\<close> that is a float, or an
  integer that a float holds exactly), \<open>chat\<close> returns these three stored values with
  \<open>cached = True\<close>; nothing is sent to the provider, only \<open>GET\<close> is sent to the store,
  and the database is unchanged.
\<close>

theorem chat_hit_returns_stored_entry:
  assumes "strip rq \<noteq> []"
    and "\<not> fault_at w 0"
    and "redis_db w (generate_cache_key (strip rq)) = Some (raw, ttl)"
    and "raw \<noteq> []"
    and "json_loads e raw = Some (PDict kvs)"
    and "map_of kvs ''query'' = Some (PStr sq)"
    and "map_of kvs ''response'' = Some (PStr sr)"
    and "map_of kvs ''timestamp'' = Some t"
    and "t = PFloat ts \<or> (\<exists>i. t = PInt i \<and> \<bar>i\<bar> \<le> 2 ^ 53 \<and> ts = of_int i)"
  shows "fst (chat e w rq) = Inr \<lparr>query = sq, response = sr, cached = True, timestamp = ts\<rparr>
         \<and> provider_log (snd (chat e w rq)) = provider_log w
         \<and> redis_log (snd (chat e w rq)) = redis_log w @ [GET (generate_cache_key (strip rq))]
         \<and> redis_db (snd (chat e w rq)) = redis_db w"
proof (cases "RedisCache_get e w (generate_cache_key (strip rq))")
  case (Pair v w1)
  from RedisCache_get_stored [OF assms(2,3,4,5)] Pair have v: "v = PDict kvs" by simp
  from Pair snd_RedisCache_get [of e w "generate_cache_key (strip rq)"]
  have w1: "w1 = w\<lparr>redis_faults := tl (redis_faults w),
               redis_log := redis_log w @ [GET (generate_cache_key (strip rq))]\<rparr>"
    by simp
  from assms(6) have ne: "kvs \<noteq> []" by auto
  from assms(9) have f: "as_float e t = Some ts" by (rule as_float_stored)
  have "chat e w rq =
      (Inr \<lparr>query = sq, response = sr, cached = True, timestamp = ts\<rparr>, w1)"
    using assms(1) ne
    by (simp add: chat_def Let_def Pair v chat_hit_entry [OF assms(6,7,8) f])
  then show ?thesis by (simp add: w1)
qed

theorem chat_hit_returns_stored_entry_witness:
  "fst (chat example_env warm_world ''  WHAT IS GO?'') =
     Inr \<lparr>query = ''What is Go?'', response = ''A programming language.'',
           cached = True, timestamp = 1700000000\<rparr>
   \<and> provider_log (snd (chat example_env warm_world ''  WHAT IS GO?'')) = []"
proof -
  have ne: "strip ''  WHAT IS GO?'' \<noteq> []"
    by code_simp
  have nf: "\<not> fault_at warm_world 0"
    by (simp add: fault_at_def warm_world_def empty_world_def)
  have db: "redis_db warm_world (generate_cache_key (strip ''  WHAT IS GO?''))
              = Some (''<entry>'', 600)"
    by (simp add: key_example warm_world_def empty_world_def)
  have r: "''<entry>'' \<noteq> []" by simp
  have l: "json_loads example_env ''<entry>'' =
      Some (PDict [(''query'', PStr ''What is Go?''),
                   (''response'', PStr ''A programming language.''),
                   (''cached'', PBool False), (''timestamp'', PFloat 1700000000)])"
    by (simp add: example_env_def example_entry_def)
  have t: "PFloat 1700000000 = PFloat 1700000000
             \<or> (\<exists>i. PFloat 1700000000 = PInt i \<and> \<bar>i\<bar> \<le> 2 ^ 53 \<and> 1700000000 = real_of_int i)"
    by simp
  from chat_hit_returns_stored_entry [OF ne nf db r l _ _ _ t, of "''What is Go?''"
         "''A programming language.''"]
  show ?thesis
    by (simp add: warm_world_def empty_world_def)
qed

end
